theory Spec2Isabelle
  imports Complex_Main
begin

section \<open>Thrown values\<close>

text \<open>
  A JavaScript \<open>throw\<close> and a rejected promise are values of type \<open>error\<close>; a call that
  may throw returns \<open>error + 'a\<close> with \<open>Inl\<close> for the thrown value.
\<close>

datatype error = Error string | TypeError string | DecimalError string

section \<open>TriggerableMonitor (monitors/triggerable-monitor.ts)\<close>

text \<open>
  The class is in \<open>src/unnamed/part_001\<close>; the line numbers of this section are lines of
  that file.
\<close>

record TransactionLocation =
  locBlockHash :: string
  txId :: string

text \<open>The object the generator yields: \<open>{ blockHash, events }\<close>.\<close>

record 'e envelope =
  blockHash :: string
  events :: "'e list"

record 'e ProcessRemainsResult =
  nextBlockIndex :: int
  remainedEvents :: "'e envelope list"

text \<open>
  The two mutable fields of the class. Dates are milliseconds since the epoch, as the
  unary plus in \<open>+current - +this.updatedAt\<close> reads them. Block numbers are JavaScript
  numbers; they are integers here, which is what the doubles of the source compute as
  long as block numbers stay below \<open>2 ^ 53\<close>.
\<close>

record monitor_state =
  latestBlockNumber :: int
  updatedAt :: int

text \<open>
  The read-only part of a monitor: the constructor's arguments, the name of the concrete
  class (\<open>this.constructor.name\<close>) and the synchronous abstract method
  \<open>triggerredBlocks\<close>. Integrations are identified by a name.
\<close>

record monitor =
  className :: string
  latestTransactionLocation :: "TransactionLocation option"
  delayMilliseconds :: nat
  integrations :: "string list"
  triggerredBlocks :: "int \<Rightarrow> error + int list"

text \<open>
  What the outside world answers during one pass of the loop (and, for the first record of
  a run, during the start-up phase): the asynchronous abstract methods, the clock read by
  the single \<open>new Date()\<close> of the pass, and whether the \<open>error\<close> method of an integration
  throws.
\<close>

record 'e world =
  processRemains :: "TransactionLocation \<Rightarrow> error + 'e ProcessRemainsResult"
  getTipIndex :: "error + int"
  getBlockHash :: "int \<Rightarrow> error + string"
  getEvents :: "int \<Rightarrow> error + 'e list"
  now :: int
  integrationThrows :: "string \<Rightarrow> error option"

text \<open>
  The observable actions of the generator, in order. \<open>Yield\<close> carries the yielded
  envelope; its first argument is an annotation, the block index the envelope was fetched
  for (\<open>None\<close> for an envelope handed over by \<open>processRemains\<close>). \<open>LogError\<close> is
  \<open>this.error(...)\<close>, \<open>CaptureException\<close> the call of the error-capture sink,
  \<open>IntegrationError i m n\<close> the call \<open>integration.error(m, {latestBlockNumber: n})\<close> on
  integration \<open>i\<close>, and \<open>Delay\<close> the awaited \<open>delay\<close>. The \<open>console.debug\<close> lines are
  left out. The consumer is assumed to resume the generator after every yield.
\<close>

datatype 'e effect =
    Yield "int option" "'e envelope"
  | LogError error
  | CaptureException error
  | IntegrationError string string int
  | Delay nat

text \<open>How a block of statements completes.\<close>

datatype completion = Normal | Throw error

text \<open>How far a run of the generator got: still inside \<open>while(true)\<close>, or ended by an error.\<close>

datatype outcome = Running monitor_state | Rejected error

definition TIMEOUT :: int where
  "TIMEOUT = 5 * 60 * 1000"

definition alertMessage :: "monitor \<Rightarrow> string" where
  "alertMessage M = className M @ '' is not updated for 5 minutes.''"

text \<open>Lines 33--45: the start-up phase, outside of any \<open>try\<close>.\<close>

definition start :: "monitor \<Rightarrow> 'e world \<Rightarrow> error + (monitor_state \<times> 'e effect list)" where
  "start M w =
     (case latestTransactionLocation M of
        Some loc \<Rightarrow>
          (case processRemains w loc of
             Inl e \<Rightarrow> Inl e
           | Inr r \<Rightarrow>
               Inr (\<lparr>latestBlockNumber = nextBlockIndex r, updatedAt = now w\<rparr>,
                    map (Yield None) (remainedEvents r)))
      | None \<Rightarrow>
          (case getTipIndex w of
             Inl e \<Rightarrow> Inl e
           | Inr tip \<Rightarrow> Inr (\<lparr>latestBlockNumber = tip, updatedAt = now w\<rparr>, [])))"

text \<open>Lines 54--59: the \<open>for\<close> loop over the triggered block indexes.\<close>

fun executeBlocks :: "'e world \<Rightarrow> int list \<Rightarrow> completion \<times> 'e effect list" where
  "executeBlocks w [] = (Normal, [])"
| "executeBlocks w (blockIndex # rest) =
     (case getBlockHash w blockIndex of
        Inl e \<Rightarrow> (Throw e, [])
      | Inr h \<Rightarrow>
          (case getEvents w blockIndex of
             Inl e \<Rightarrow> (Throw e, [])
           | Inr evs \<Rightarrow>
               (case executeBlocks w rest of
                  (c, out) \<Rightarrow>
                    (c, Yield (Some blockIndex) \<lparr>blockHash = h, events = evs\<rparr> # out))))"

text \<open>Lines 69--73: the \<open>for\<close> loop over the integrations.\<close>

fun notifyIntegrations ::
  "'e world \<Rightarrow> string list \<Rightarrow> string \<Rightarrow> int \<Rightarrow> completion \<times> 'e effect list" where
  "notifyIntegrations w [] m n = (Normal, [])"
| "notifyIntegrations w (i # rest) m n =
     (case integrationThrows w i of
        Some e \<Rightarrow> (Throw e, [IntegrationError i m n])
      | None \<Rightarrow>
          (case notifyIntegrations w rest m n of
             (c, out) \<Rightarrow> (c, IntegrationError i m n # out)))"

text \<open>Lines 49--77: the body of the \<open>try\<close> block.\<close>

definition tryBlock ::
  "monitor \<Rightarrow> 'e world \<Rightarrow> monitor_state \<Rightarrow> completion \<times> monitor_state \<times> 'e effect list" where
  "tryBlock M w s =
     (case getTipIndex w of
        Inl e \<Rightarrow> (Throw e, s, [])
      | Inr tipIndex \<Rightarrow>
          if latestBlockNumber s + 1 \<le> tipIndex then
            (case triggerredBlocks M (latestBlockNumber s + 1) of
               Inl e \<Rightarrow> (Throw e, s, [])
             | Inr trigerredBlockIndexes \<Rightarrow>
                 (case executeBlocks w trigerredBlockIndexes of
                    (Throw e, out) \<Rightarrow> (Throw e, s, out)
                  | (Normal, out) \<Rightarrow>
                      (Normal,
                       s\<lparr>latestBlockNumber := latestBlockNumber s + 1, updatedAt := now w\<rparr>,
                       out)))
          else
            (case (if now w - updatedAt s > TIMEOUT
                   then notifyIntegrations w (integrations M) (alertMessage M)
                          (latestBlockNumber s)
                   else (Normal, [])) of
               (Throw e, out) \<Rightarrow> (Throw e, s, out)
             | (Normal, out) \<Rightarrow> (Normal, s, out @ [Delay (delayMilliseconds M)])))"

text \<open>Lines 78--81: the \<open>catch\<close> clause. Neither of its two calls is taken to throw.\<close>

definition catchClause :: "error \<Rightarrow> completion \<times> 'e effect list" where
  "catchClause e = (Normal, [LogError e, CaptureException e])"

text \<open>Lines 48--81: one pass of \<open>while(true)\<close>, the \<open>try\<close> statement.\<close>

definition loopPass ::
  "monitor \<Rightarrow> 'e world \<Rightarrow> monitor_state \<Rightarrow> completion \<times> monitor_state \<times> 'e effect list" where
  "loopPass M w s =
     (case tryBlock M w s of
        (Normal, s', out) \<Rightarrow> (Normal, s', out)
      | (Throw e, s', out) \<Rightarrow>
          (case catchClause e of (c, out') \<Rightarrow> (c, s', out @ out')))"

text \<open>
  Lines 47--82: \<open>while(true)\<close>. The loop has no exit of its own, so a run is observed for
  as many passes as there are worlds in the list; a pass that completes abruptly ends the
  generator with that error.
\<close>

fun whileTrue ::
  "monitor \<Rightarrow> 'e world list \<Rightarrow> monitor_state \<Rightarrow> outcome \<times> 'e effect list" where
  "whileTrue M [] s = (Running s, [])"
| "whileTrue M (w # ws) s =
     (case loopPass M w s of
        (Throw e, s', out) \<Rightarrow> (Rejected e, out)
      | (Normal, s', out) \<Rightarrow>
          (case whileTrue M ws s' of (r, out') \<Rightarrow> (r, out @ out')))"

text \<open>Lines 32--83: \<open>loop\<close>, with the world of the start-up phase and those of the passes.\<close>

definition loop :: "monitor \<Rightarrow> 'e world \<Rightarrow> 'e world list \<Rightarrow> outcome \<times> 'e effect list" where
  "loop M w0 ws =
     (case start M w0 of
        Inl e \<Rightarrow> (Rejected e, [])
      | Inr (s, out) \<Rightarrow>
          (case whileTrue M ws s of (r, out') \<Rightarrow> (r, out @ out')))"

text \<open>The block indexes of the envelopes yielded by the main loop, in order.\<close>

fun yieldedBlocks :: "'e effect list \<Rightarrow> int list" where
  "yieldedBlocks [] = []"
| "yieldedBlocks (Yield (Some i) v # out) = i # yieldedBlocks out"
| "yieldedBlocks (x # out) = yieldedBlocks out"


text \<open>The calls of \<open>integration.error\<close>, in order.\<close>

fun alerts :: "'e effect list \<Rightarrow> (string \<times> string \<times> int) list" where
  "alerts [] = []"
| "alerts (IntegrationError i m n # out) = (i, m, n) # alerts out"
| "alerts (x # out) = alerts out"

section \<open>The handler for uncaught exceptions (index.ts, lines 164--168)\<close>

text \<open>
  The part of the Node.js process that decides what an exception does that reaches the
  event loop uncaught: the listeners of \<open>uncaughtException\<close>, what has been written to
  the standard error stream, and the exit code once the process has ended. With no
  listener the runtime prints the error and ends the process with code 1; with
  listeners it calls them and the process goes on. The only listener the program
  installs is \<open>console.error\<close>.
\<close>

datatype listener = ConsoleErrorListener

record nodeProcess =
  listeners :: "listener list"
  stderr :: "error list"
  exitCode :: "int option"

definition bootProcess :: nodeProcess where
  "bootProcess = \<lparr>listeners = [], stderr = [], exitCode = None\<rparr>"


definition callListener :: "error \<Rightarrow> listener \<Rightarrow> nodeProcess \<Rightarrow> nodeProcess" where
  "callListener e l p = (case l of ConsoleErrorListener \<Rightarrow> p\<lparr>stderr := stderr p @ [e]\<rparr>)"

definition uncaughtException :: "error \<Rightarrow> nodeProcess \<Rightarrow> nodeProcess" where
  "uncaughtException e p =
     (case exitCode p of
        Some c \<Rightarrow> p
      | None \<Rightarrow>
          (case listeners p of
             [] \<Rightarrow> p\<lparr>stderr := stderr p @ [e], exitCode := Some 1\<rparr>
           | l # ls \<Rightarrow> fold (callListener e) (l # ls) p))"


section \<open>Decimal arithmetic of the decimal.js library\<close>

text \<open>
  The finite values of the arbitrary-precision \<open>Decimal\<close> type: a sign, a coefficient and
  the number of digits after the decimal point. The value is
  \<open>\<plusminus> coefficient / 10 ^ scale\<close>.
\<close>

record decimal =
  negative :: bool
  coefficient :: nat
  scale :: nat

definition decValue :: "decimal \<Rightarrow> rat" where
  "decValue x =
     (if negative x then - 1 else 1) * of_nat (coefficient x) / 10 ^ scale x"

definition isDigit :: "char \<Rightarrow> bool" where
  "isDigit c = (48 \<le> (of_char c :: nat) \<and> (of_char c :: nat) \<le> 57)"

definition digitsValue :: "string \<Rightarrow> nat" where
  "digitsValue ds = foldl (\<lambda>a c. 10 * a + (of_char c - 48)) (0::nat) ds"

text \<open>
  \<open>new Decimal(v)\<close> for a string in plain decimal notation: an optional minus sign,
  digits, and an optional point, with at least one digit. The constructor keeps every
  digit. The other notations the library reads (an exponent, a radix prefix, the literals
  for infinity and not-a-number) are not decimal amounts and are outside of this model:
  \<open>None\<close> stands for the thrown \<open>DecimalError\<close>.
\<close>

definition parseDecimal :: "string \<Rightarrow> decimal option" where
  "parseDecimal v =
     (let neg = (v \<noteq> [] \<and> hd v = CHR ''-'');
          body = (if neg then tl v else v);
          ip = takeWhile (\<lambda>c. c \<noteq> CHR ''.'') body;
          fp = drop 1 (dropWhile (\<lambda>c. c \<noteq> CHR ''.'') body)
      in if list_all isDigit ip \<and> list_all isDigit fp \<and> (ip \<noteq> [] \<or> fp \<noteq> [])
         then Some \<lparr>negative = neg, coefficient = digitsValue (ip @ fp), scale = length fp\<rparr>
         else None)"

fun numDigits :: "nat \<Rightarrow> nat" where
  "numDigits n = (if n < 10 then 1 else Suc (numDigits (n div 10)))"

declare numDigits.simps [simp del]

text \<open>
  The library's default configuration: results of arithmetic are rounded to
  \<open>precision = 20\<close> significant digits, a tie going away from zero (\<open>ROUND_HALF_UP\<close>).
\<close>

definition precision :: nat where
  "precision = 20"

definition finalise :: "decimal \<Rightarrow> decimal" where
  "finalise x =
     (let nd = numDigits (coefficient x)
      in if nd \<le> precision then x
         else
           (let k = nd - precision;
                c = (coefficient x + 5 * 10 ^ (k - 1)) div 10 ^ k
            in if k \<le> scale x then x\<lparr>coefficient := c, scale := scale x - k\<rparr>
               else x\<lparr>coefficient := c * 10 ^ (k - scale x), scale := 0\<rparr>))"

text \<open>\<open>x.mul(y)\<close>: the exact product, rounded to the precision.\<close>

definition mul :: "decimal \<Rightarrow> decimal \<Rightarrow> decimal" where
  "mul x y =
     finalise \<lparr>negative = (negative x \<noteq> negative y),
               coefficient = coefficient x * coefficient y,
               scale = scale x + scale y\<rparr>"

definition ofNat :: "nat \<Rightarrow> decimal" where
  "ofNat n = \<lparr>negative = False, coefficient = n, scale = 0\<rparr>"

text \<open>\<open>x.floor()\<close>: the largest integer not above the value.\<close>

definition floorDecimal :: "decimal \<Rightarrow> int" where
  "floorDecimal x =
     (let q = coefficient x div 10 ^ scale x;
          r = coefficient x mod 10 ^ scale x
      in if negative x then (if r = 0 then - int q else - int q - 1) else int q)"

text \<open>
  \<open>toNumber()\<close> of an integral Decimal: the nearest IEEE 754 double, a tie going to the
  even significand of 53 bits, infinite from \<open>2 ^ 1024\<close> on.
\<close>

datatype number = Finite int | PosInfinity | NegInfinity

fun bitLength :: "nat \<Rightarrow> nat" where
  "bitLength n = (if n = 0 then 0 else Suc (bitLength (n div 2)))"

declare bitLength.simps [simp del]

definition roundToDouble :: "nat \<Rightarrow> nat option" where
  "roundToDouble n =
     (if n < 2 ^ 53 then Some n
      else
        (let k = bitLength n - 53;
             q = n div 2 ^ k;
             r = n mod 2 ^ k;
             h = 2 ^ (k - 1);
             q' = (if h < r \<or> (r = h \<and> odd q) then q + 1 else q)
         in if q' * 2 ^ k < 2 ^ 1024 then Some (q' * 2 ^ k) else None))"

definition toNumber :: "int \<Rightarrow> number" where
  "toNumber n =
     (case roundToDouble (nat \<bar>n\<bar>) of
        None \<Rightarrow> (if n < 0 then NegInfinity else PosInfinity)
      | Some m \<Rightarrow> Finite (if n < 0 then - int m else int m))"

section \<open>NCGKMSTransfer (ncg-kms-transfer.ts)\<close>

text \<open>
  The class is in \<open>src/unnamed/part_000\<close>, as is \<open>index.ts\<close>; the line numbers of this
  section, of the section on the mutex and of the section on uncaught exceptions are
  lines of that file.
\<close>

text \<open>Line 74: \<open>new Decimal(amount).mul(100).floor().toNumber()\<close>.\<close>

definition ncgAmount :: "string \<Rightarrow> error + number" where
  "ncgAmount amount =
     (case parseDecimal amount of
        None \<Rightarrow> Inl (DecimalError amount)
      | Some d \<Rightarrow> Inr (toNumber (floorDecimal (mul d (ofNat 100)))))"

text \<open>
  Lines 78--95: the plain value of the action. Buffers are lists of bytes; the \<open>memo\<close>
  key is present only for a memo that is not \<open>null\<close>.
\<close>

record currency =
  decimalPlaces :: "nat list"
  currencyMinters :: "nat list list"
  ticker :: string

record plainValue =
  type_id :: string
  amountCurrency :: currency
  amountNumber :: number
  memo :: "string option"
  recipient :: "nat list"
  sender :: "nat list"

text \<open>
  The library functions the method calls, taken as parameters: \<open>web3.utils.hexToBytes\<close>
  (which throws on a string that is not hexadecimal), the bencodex \<open>encode\<close> followed by
  \<open>toString("base64")\<close>, the two \<open>Buffer\<close> conversions and the SHA-256 digest in
  hexadecimal.
\<close>

record library =
  hexToBytes :: "string \<Rightarrow> error + nat list"
  encodeBase64 :: "plainValue \<Rightarrow> error + string"
  base64ToHex :: "string \<Rightarrow> string"
  hexToBase64 :: "string \<Rightarrow> string"
  sha256Hex :: "string \<Rightarrow> string"

text \<open>A GraphQL client: what its endpoint answers to the two requests.\<close>

record client =
  endpoint :: string
  createUnsignedTx :: "string \<Rightarrow> string \<Rightarrow> error + string"
  stageTx :: "string \<Rightarrow> error + bool"

record NCGKMSTransfer =
  headlessGraphQLCLients :: "client list"
  address :: string
  publicKey :: string
  minters :: "string list"
  sign :: "string \<Rightarrow> error + string"

text \<open>
  The requests and console lines of one call, in order. Clients are named by their index
  in the list.
\<close>

datatype call =
    CreateUnsignedTx nat string string
  | Sign string
  | StageTx nat string
  | ConsoleLog string
  | ConsoleError error

text \<open>Lines 62--64: the getter; index 0 of an empty array is \<open>undefined\<close>.\<close>

definition headlessGraphQLClient :: "NCGKMSTransfer \<Rightarrow> client option" where
  "headlessGraphQLClient T =
     (case headlessGraphQLCLients T of [] \<Rightarrow> None | c # cs \<Rightarrow> Some c)"

text \<open>\<open>xs.map(f)\<close> for an \<open>f\<close> that may throw: the first thrown error ends the map.\<close>

fun mapThrowing :: "('a \<Rightarrow> error + 'b) \<Rightarrow> 'a list \<Rightarrow> error + 'b list" where
  "mapThrowing f [] = Inr []"
| "mapThrowing f (x # xs) =
     (case f x of
        Inl e \<Rightarrow> Inl e
      | Inr y \<Rightarrow> (case mapThrowing f xs of Inl e \<Rightarrow> Inl e | Inr ys \<Rightarrow> Inr (y # ys)))"

text \<open>Lines 78--95.\<close>

definition buildPlainValue ::
  "library \<Rightarrow> NCGKMSTransfer \<Rightarrow> string \<Rightarrow> number \<Rightarrow> string option \<Rightarrow> error + plainValue" where
  "buildPlainValue L T addr n m =
     (case mapThrowing (hexToBytes L) (minters T) of
        Inl e \<Rightarrow> Inl e
      | Inr ms \<Rightarrow>
          (case hexToBytes L addr of
             Inl e \<Rightarrow> Inl e
           | Inr r \<Rightarrow>
               (case hexToBytes L (address T) of
                  Inl e \<Rightarrow> Inl e
                | Inr s \<Rightarrow>
                    Inr \<lparr>type_id = ''transfer_asset3'',
                         amountCurrency =
                           \<lparr>decimalPlaces = [2], currencyMinters = ms, ticker = ''NCG''\<rparr>,
                         amountNumber = n, memo = m, recipient = r, sender = s\<rparr>)))"

text \<open>
  Lines 96--103: the unsigned transaction is requested and signed. The member access on
  \<open>undefined\<close> throws before the arguments of the call are evaluated.
\<close>

definition signTransfer ::
  "library \<Rightarrow> NCGKMSTransfer \<Rightarrow> plainValue \<Rightarrow> (error + string) \<times> call list" where
  "signTransfer L T pv =
     (case headlessGraphQLClient T of
        None \<Rightarrow>
          (Inl (TypeError ''Cannot read properties of undefined (reading createUnsignedTx)''), [])
      | Some c \<Rightarrow>
          (case encodeBase64 L pv of
             Inl e \<Rightarrow> (Inl e, [])
           | Inr action \<Rightarrow>
               (case createUnsignedTx c action (publicKey T) of
                  Inl e \<Rightarrow> (Inl e, [CreateUnsignedTx 0 action (publicKey T)])
                | Inr unsignedTx \<Rightarrow>
                    (case sign T (base64ToHex L unsignedTx) of
                       Inl e \<Rightarrow>
                         (Inl e,
                          [CreateUnsignedTx 0 action (publicKey T),
                           Sign (base64ToHex L unsignedTx)])
                     | Inr tx \<Rightarrow>
                         (Inr tx,
                          [CreateUnsignedTx 0 action (publicKey T),
                           Sign (base64ToHex L unsignedTx)])))))"

definition showBool :: "bool \<Rightarrow> string" where
  "showBool b = (if b then ''true'' else ''false'')"

text \<open>
  Lines 106--117: what one client's promise settles to. A rejection is written to the
  console and becomes \<open>false\<close>.
\<close>

definition stageResult :: "library \<Rightarrow> string \<Rightarrow> client \<Rightarrow> bool \<times> call" where
  "stageResult L tx c =
     (case stageTx c (hexToBase64 L tx) of
        Inr success \<Rightarrow>
          (success,
           ConsoleLog (''It was '' @ showBool success @ '' to stage '' @ tx @ '' to ''
                       @ endpoint c @ '' endpoint''))
      | Inl e \<Rightarrow> (False, ConsoleError e))"

text \<open>
  Lines 104--119: \<open>Promise.all\<close> over the mapped clients. Every request is issued while
  the array is mapped, before any answer is awaited; the console lines follow, here in
  the order of the clients.
\<close>

definition stageAll :: "library \<Rightarrow> NCGKMSTransfer \<Rightarrow> string \<Rightarrow> bool list \<times> call list" where
  "stageAll L T tx =
     (map (\<lambda>c. fst (stageResult L tx c)) (headlessGraphQLCLients T),
      map (\<lambda>i. StageTx i (hexToBase64 L tx)) [0..<length (headlessGraphQLCLients T)]
      @ map (\<lambda>c. snd (stageResult L tx c)) (headlessGraphQLCLients T))"

text \<open>Line 120: \<open>reduce\<close> without an initial value throws on an empty array.\<close>

definition reduceOr :: "bool list \<Rightarrow> error + bool" where
  "reduceOr rs =
     (case rs of
        [] \<Rightarrow> Inl (TypeError ''Reduce of empty array with no initial value'')
      | a # bs \<Rightarrow> Inr (foldl (\<or>) a bs))"

text \<open>Lines 104--129: the fan-out and the transaction id.\<close>

definition stageAndHash ::
  "library \<Rightarrow> NCGKMSTransfer \<Rightarrow> string \<Rightarrow> (error + string) \<times> call list" where
  "stageAndHash L T tx =
     (case stageAll L T tx of
        (stageResults, calls) \<Rightarrow>
          (case reduceOr stageResults of
             Inl e \<Rightarrow> (Inl e, calls)
           | Inr successAtLeastOne \<Rightarrow>
               if \<not> successAtLeastOne
               then (Inl (Error ''Failed to stage transaction''), calls)
               else (Inr (sha256Hex L tx), calls)))"

text \<open>Lines 75--130: the function handed to \<open>runExclusive\<close>.\<close>

definition transferExclusive ::
  "library \<Rightarrow> NCGKMSTransfer \<Rightarrow> string \<Rightarrow> number \<Rightarrow> string option
     \<Rightarrow> (error + string) \<times> call list" where
  "transferExclusive L T addr n m =
     (case buildPlainValue L T addr n m of
        Inl e \<Rightarrow> (Inl e, [])
      | Inr pv \<Rightarrow>
          (case signTransfer L T pv of
             (Inl e, calls) \<Rightarrow> (Inl e, calls)
           | (Inr tx, calls) \<Rightarrow>
               (case stageAndHash L T tx of
                  (r, calls') \<Rightarrow> (r, calls @ calls'))))"

text \<open>
  Lines 66--131: \<open>transfer\<close>. The amount is computed before the mutex is entered.
\<close>

definition transfer ::
  "library \<Rightarrow> NCGKMSTransfer \<Rightarrow> string \<Rightarrow> string \<Rightarrow> string option
     \<Rightarrow> (error + string) \<times> call list" where
  "transfer L T addr amount m =
     (case ncgAmount amount of
        Inl e \<Rightarrow> (Inl e, [])
      | Inr n \<Rightarrow> transferExclusive L T addr n m)"

section \<open>The mutex around the transfer (line 75)\<close>

text \<open>
  \<open>index.ts\<close> constructs one \<open>NCGKMSTransfer\<close> and hands it to both observers, so every
  call of \<open>transfer\<close> in the process goes through the \<open>Mutex\<close> of that object. A call is
  suspended at \<open>runExclusive\<close> and at each \<open>await\<close> of the function it runs; between two
  suspensions its code runs without interruption. Its phases:
  \<^item> \<open>Waiting\<close>: in \<open>runExclusive\<close>, the function not started yet;
  \<^item> \<open>Building\<close>: the \<open>createUnsignedTx\<close> request is in flight (lines 96--100);
  \<^item> \<open>Signing\<close>: the signer has been asked (lines 101--103);
  \<^item> \<open>Staging\<close>: the \<open>stageTx\<close> requests are in flight (lines 104--119);
  \<^item> \<open>Done\<close>: the promise of \<open>transfer\<close> is settled.
\<close>

datatype phase = Waiting | Building | Signing | Staging | Done

record scheduler =
  locked :: bool
  phases :: "phase list"

text \<open>
  \<open>runExclusive\<close> of the async-mutex library acquires the mutex, runs the function and
  releases the mutex when the function's promise settles, fulfilled or rejected. An event
  \<open>(i, ok)\<close> resumes call \<open>i\<close>; \<open>ok\<close> tells whether what the call was suspended on
  succeeded (for a waiting call: whether the function reaches its first \<open>await\<close> without
  throwing). A waiting call is resumed only while the mutex is free; an event for a call
  that cannot run changes nothing. The library wakes waiting calls in the order of their
  arrival; the model lets any of them go first.
\<close>

definition resume :: "nat \<times> bool \<Rightarrow> scheduler \<Rightarrow> scheduler" where
  "resume ev s =
     (case ev of
        (i, ok) \<Rightarrow>
          if i < length (phases s) then
            (case phases s ! i of
               Waiting \<Rightarrow>
                 if locked s then s
                 else if ok then \<lparr>locked = True, phases = (phases s)[i := Building]\<rparr>
                 else \<lparr>locked = False, phases = (phases s)[i := Done]\<rparr>
             | Building \<Rightarrow>
                 if ok then s\<lparr>phases := (phases s)[i := Signing]\<rparr>
                 else \<lparr>locked = False, phases = (phases s)[i := Done]\<rparr>
             | Signing \<Rightarrow>
                 if ok then s\<lparr>phases := (phases s)[i := Staging]\<rparr>
                 else \<lparr>locked = False, phases = (phases s)[i := Done]\<rparr>
             | Staging \<Rightarrow> \<lparr>locked = False, phases = (phases s)[i := Done]\<rparr>
             | Done \<Rightarrow> s)
          else s)"

fun schedule :: "(nat \<times> bool) list \<Rightarrow> scheduler \<Rightarrow> scheduler" where
  "schedule [] s = s"
| "schedule (ev # evs) s = schedule evs (resume ev s)"

text \<open>\<open>K\<close> calls of \<open>transfer\<close> have been made and none has entered the mutex yet.\<close>

definition concurrentCalls :: "nat \<Rightarrow> scheduler" where
  "concurrentCalls K = \<lparr>locked = False, phases = replicate K Waiting\<rparr>"

text \<open>The number of \<open>createUnsignedTx\<close> requests in flight.\<close>

definition inFlight :: "scheduler \<Rightarrow> nat" where
  "inFlight s = length (filter (\<lambda>p. p = Building) (phases s))"

text \<open>The number of calls inside the function run by \<open>runExclusive\<close>.\<close>

definition inside :: "scheduler \<Rightarrow> nat" where
  "inside s = length (filter (\<lambda>p. p = Building \<or> p = Signing \<or> p = Staging) (phases s))"

section \<open>WrappedNCGMinter (wrapped-ncg-minter.ts)\<close>

text \<open>
  The class is in \<open>src/bridge/src/wrapped-ncg-minter.ts\<close>. Its constructor takes the
  tip ratio as a Decimal; the fields \<open>_web3\<close> and \<open>_contract\<close> appear in the model as the
  answers of the world.
\<close>

record WrappedNCGMinter =
  contractAddress :: string
  minterAddress :: string
  gasTipRatio :: decimal

text \<open>A value of the options object handed to \<open>send\<close>.\<close>

datatype optionValue = Text string | DecimalString int

text \<open>
  What the outside world answers during one call of \<open>mint\<close>: the gas price the node
  reports, the construction of the contract call (\<open>toBN\<close> and \<open>methods.mint\<close>, which may
  throw), the promise of \<open>send\<close>, and whether each of the two callbacks throws.
\<close>

record 'r mintWorld =
  getGasPrice :: "error + string"
  mintMethod :: "string \<Rightarrow> string \<Rightarrow> error option"
  send :: "(string \<times> optionValue) list \<Rightarrow> error + 'r"
  callbackThrows :: "'r \<Rightarrow> error option"
  errorCallbackThrows :: "error \<Rightarrow> error option"

text \<open>
  The observable actions of \<open>mint\<close>, in order. \<open>UnhandledRejection\<close> is a promise that
  rejects with no handler attached to it.
\<close>

datatype 'r mintEvent =
    MintLog string
  | Send string string "(string \<times> optionValue) list"
  | Callback 'r
  | ErrorCallback error
  | UnhandledRejection error

text \<open>Line 42: \<open>.catch(errorCallback)\<close>.\<close>

definition catchWithErrorCallback :: "'r mintWorld \<Rightarrow> error \<Rightarrow> 'r mintEvent list" where
  "catchWithErrorCallback w e =
     ErrorCallback e #
     (case errorCallbackThrows w e of None \<Rightarrow> [] | Some e' \<Rightarrow> [UnhandledRejection e'])"

text \<open>
  Lines 31--44: \<open>mint\<close>. The amount is given by the text \<open>amount.toString()\<close>. The promise
  returned by the outer \<open>then\<close> has no handler. The call \<open>Decimal.set\<close> of line 34
  changes how large numbers are printed and nothing else.
\<close>

definition mint :: "WrappedNCGMinter \<Rightarrow> 'r mintWorld \<Rightarrow> string \<Rightarrow> string \<Rightarrow> 'r mintEvent list" where
  "mint M w addr amount =
     MintLog (''Minting '' @ amount @ '' '' @ contractAddress M @ '' to '' @ addr) #
     (case getGasPrice w of
        Inl e \<Rightarrow> [UnhandledRejection e]
      | Inr gasPriceString \<Rightarrow>
          (case parseDecimal gasPriceString of
             None \<Rightarrow> [UnhandledRejection (DecimalError gasPriceString)]
           | Some gasPrice \<Rightarrow>
               (let gasPriceWithTip = floorDecimal (mul gasPrice (gasTipRatio M));
                    opts = [(''from'', Text (minterAddress M)),
                            (''gasPrice'', DecimalString gasPriceWithTip)]
                in case mintMethod w addr amount of
                     Some e \<Rightarrow> [UnhandledRejection e]
                   | None \<Rightarrow>
                       Send addr amount opts #
                       (case send w opts of
                          Inl e \<Rightarrow> catchWithErrorCallback w e
                        | Inr receipt \<Rightarrow>
                            Callback receipt #
                            (case callbackThrows w receipt of
                               None \<Rightarrow> []
                             | Some e \<Rightarrow> catchWithErrorCallback w e)))))"

text \<open>The options of the \<open>send\<close> calls, and the errors handed to \<open>errorCallback\<close>.\<close>

fun sendOptions :: "'r mintEvent list \<Rightarrow> (string \<times> optionValue) list list" where
  "sendOptions [] = []"
| "sendOptions (Send a n opts # evs) = opts # sendOptions evs"
| "sendOptions (x # evs) = sendOptions evs"

fun errorCallbacks :: "'r mintEvent list \<Rightarrow> error list" where
  "errorCallbacks [] = []"
| "errorCallbacks (ErrorCallback e # evs) = e # errorCallbacks evs"
| "errorCallbacks (x # evs) = errorCallbacks evs"

fun callbacks :: "'r mintEvent list \<Rightarrow> 'r list" where
  "callbacks [] = []"
| "callbacks (Callback r # evs) = r # callbacks evs"
| "callbacks (x # evs) = callbacks evs"

fun unhandledRejections :: "'r mintEvent list \<Rightarrow> error list" where
  "unhandledRejections [] = []"
| "unhandledRejections (UnhandledRejection e # evs) = e # unhandledRejections evs"
| "unhandledRejections (x # evs) = unhandledRejections evs"

section \<open>Gas price policies (policies/gas-price.ts)\<close>

text \<open>
  Modelled from the spec: the module \<open>policies/gas-price\<close>, which \<open>index.ts\<close> imports
  \<open>GasPriceTipPolicy\<close>, \<open>GasPriceLimitPolicy\<close> and \<open>GasPricePolicies\<close> from, is not among
  the sources. By the specification a tip policy maps a price \<open>p\<close> to
  \<open>floor (p * r)\<close>, a limit policy maps it to \<open>min p cap\<close>, and a composite applies its
  policies from left to right.
\<close>

datatype gasPricePolicy =
    GasPriceTipPolicy rat
  | GasPriceLimitPolicy rat
  | GasPricePolicies "gasPricePolicy list"

fun calculateGasPrice :: "gasPricePolicy \<Rightarrow> rat \<Rightarrow> rat" where
  "calculateGasPrice (GasPriceTipPolicy r) p = of_int \<lfloor>p * r\<rfloor>"
| "calculateGasPrice (GasPriceLimitPolicy cap) p = min p cap"
| "calculateGasPrice (GasPricePolicies ps) p = fold calculateGasPrice ps p"

text \<open>Lines 243--248 of \<open>index.ts\<close>: the policy handed to the minter.\<close>

definition gasPricePolicy :: "rat \<Rightarrow> rat \<Rightarrow> gasPricePolicy" where
  "gasPricePolicy GAS_TIP_RATIO MAX_GAS_PRICE =
     GasPricePolicies [GasPriceTipPolicy GAS_TIP_RATIO, GasPriceLimitPolicy MAX_GAS_PRICE]"

text \<open>The \<open>stageTx\<close> and \<open>createUnsignedTx\<close> requests of a call, by client index.\<close>

fun stageCalls :: "call list \<Rightarrow> (nat \<times> string) list" where
  "stageCalls [] = []"
| "stageCalls (StageTx i p # cs) = (i, p) # stageCalls cs"
| "stageCalls (x # cs) = stageCalls cs"

fun createCalls :: "call list \<Rightarrow> nat list" where
  "createCalls [] = []"
| "createCalls (CreateUnsignedTx i a k # cs) = i # createCalls cs"
| "createCalls (x # cs) = createCalls cs"

text \<open>The invariant of the mutex: it is locked exactly while one call is inside.\<close>

definition mutexInv :: "scheduler \<Rightarrow> bool" where
  "mutexInv s = (inside s = (if locked s then 1 else 0))"

section \<open>Concrete runs\<close>

text \<open>
  A monitor whose hook hands over two blocks on every even index and none on an odd one,
  and a monitor with the identity hook that resumes from a stored location.
\<close>

definition pairMonitor :: monitor where
  "pairMonitor =
     \<lparr>className = ''NineChroniclesTransferredEventMonitor'',
      latestTransactionLocation = None,
      delayMilliseconds = 15000,
      integrations = [''pagerduty'', ''opsgenie''],
      triggerredBlocks = (\<lambda>i. Inr (if i mod 2 = 0 then [i - 1, i] else []))\<rparr>"

definition singleMonitor :: monitor where
  "singleMonitor =
     \<lparr>className = ''EthereumBurnEventMonitor'',
      latestTransactionLocation = Some \<lparr>locBlockHash = ''h4'', txId = ''tx4''\<rparr>,
      delayMilliseconds = 15000,
      integrations = [''pagerduty'', ''opsgenie''],
      triggerredBlocks = (\<lambda>i. Inr [i])\<rparr>"

text \<open>
  Worlds: one in which every request succeeds and the tip is at 20; one in which the hash
  of block 10 cannot be fetched; one in which \<open>processRemains\<close> fails; one in which the
  tip stays at 9.
\<close>

definition steadyWorld :: "string world" where
  "steadyWorld =
     \<lparr>processRemains =
        (\<lambda>loc. Inr \<lparr>nextBlockIndex = 5,
                    remainedEvents = [\<lparr>blockHash = ''h4'', events = [''tx5'']\<rparr>]\<rparr>),
      getTipIndex = Inr 20,
      getBlockHash = (\<lambda>i. Inr ''hash''),
      getEvents = (\<lambda>i. Inr []),
      now = 1000000,
      integrationThrows = (\<lambda>i. None)\<rparr>"

definition flakyWorld :: "string world" where
  "flakyWorld =
     steadyWorld\<lparr>getBlockHash :=
                   (\<lambda>i. if i = 10 then Inl (Error ''timeout'') else Inr ''hash'')\<rparr>"

definition reorgedWorld :: "string world" where
  "reorgedWorld = steadyWorld\<lparr>processRemains := (\<lambda>loc. Inl (Error ''block not found''))\<rparr>"

definition idleWorld :: "string world" where
  "idleWorld = steadyWorld\<lparr>getTipIndex := Inr 9\<rparr>"

text \<open>
  A monitor with the identity hook that starts at the tip, the world a resumed monitor
  starts in (the tip is at 4, and \<open>processRemains\<close> hands over the rest of block 4 and
  answers 5 as the next block index), and the block index of that envelope.
\<close>

definition freshMonitor :: monitor where
  "freshMonitor =
     \<lparr>className = ''EthereumBurnEventMonitor'',
      latestTransactionLocation = None,
      delayMilliseconds = 15000,
      integrations = [''pagerduty'', ''opsgenie''],
      triggerredBlocks = (\<lambda>i. Inr [i])\<rparr>"

definition resumeWorld :: "string world" where
  "resumeWorld = steadyWorld\<lparr>getTipIndex := Inr 4\<rparr>"

definition remainedPosition :: "string envelope \<Rightarrow> int" where
  "remainedPosition v = 4"

definition s9 :: monitor_state where
  "s9 = \<lparr>latestBlockNumber = 9, updatedAt = 0\<rparr>"

text \<open>
  A transfer object with three clients: the first one refuses the connection when asked
  to stage, the second answers \<open>false\<close>, the third \<open>true\<close>. The library functions are
  stand-ins.
\<close>

definition exampleLibrary :: library where
  "exampleLibrary =
     \<lparr>hexToBytes = (\<lambda>s. Inr (map of_char s)),
      encodeBase64 = (\<lambda>pv. Inr ''action''),
      base64ToHex = (\<lambda>s. ''hex:'' @ s),
      hexToBase64 = (\<lambda>s. ''b64:'' @ s),
      sha256Hex = (\<lambda>s. ''sha256:'' @ s)\<rparr>"

definition primaryClient :: client where
  "primaryClient =
     \<lparr>endpoint = ''primary'',
      createUnsignedTx = (\<lambda>a k. Inr ''unsigned''),
      stageTx = (\<lambda>p. Inl (Error ''connection refused''))\<rparr>"

definition rejectingClient :: client where
  "rejectingClient =
     \<lparr>endpoint = ''stage-1'',
      createUnsignedTx = (\<lambda>a k. Inr ''unsigned-1''),
      stageTx = (\<lambda>p. Inr False)\<rparr>"

definition acceptingClient :: client where
  "acceptingClient =
     \<lparr>endpoint = ''stage-2'',
      createUnsignedTx = (\<lambda>a k. Inr ''unsigned-2''),
      stageTx = (\<lambda>p. Inr True)\<rparr>"

definition exampleTransfer :: NCGKMSTransfer where
  "exampleTransfer =
     \<lparr>headlessGraphQLCLients = [primaryClient, rejectingClient, acceptingClient],
      address = ''0xsender'',
      publicKey = ''pk'',
      minters = [''0xminter''],
      sign = (\<lambda>h. Inr ''signed'')\<rparr>"

text \<open>
  A minter with a tip ratio of 1.5, and worlds in which the node reports the gas price
  \<open>103926224184\<close> (the example of the source's comment): one in which everything
  succeeds, one in which the success callback throws, one in which the gas price cannot
  be fetched.
\<close>

definition exampleMinter :: WrappedNCGMinter where
  "exampleMinter =
     \<lparr>contractAddress = ''0xtoken'', minterAddress = ''0xminter'',
      gasTipRatio = \<lparr>negative = False, coefficient = 15, scale = 1\<rparr>\<rparr>"

definition mintingWorld :: "string mintWorld" where
  "mintingWorld =
     \<lparr>getGasPrice = Inr ''103926224184'',
      mintMethod = (\<lambda>a n. None),
      send = (\<lambda>opts. Inr ''receipt''),
      callbackThrows = (\<lambda>r. None),
      errorCallbackThrows = (\<lambda>e. None)\<rparr>"

definition throwingCallbackWorld :: "string mintWorld" where
  "throwingCallbackWorld =
     mintingWorld\<lparr>callbackThrows := (\<lambda>r. Some (Error ''observer failed''))\<rparr>"

definition noGasPriceWorld :: "string mintWorld" where
  "noGasPriceWorld = mintingWorld\<lparr>getGasPrice := Inl (Error ''rpc down'')\<rparr>"

lemmas example_defs =
  pairMonitor_def singleMonitor_def freshMonitor_def resumeWorld_def
  remainedPosition_def steadyWorld_def flakyWorld_def reorgedWorld_def
  idleWorld_def s9_def exampleLibrary_def primaryClient_def rejectingClient_def
  acceptingClient_def exampleTransfer_def exampleMinter_def mintingWorld_def
  throwingCallbackWorld_def noGasPriceWorld_def

section \<open>The monitor loop\<close>

subsection \<open>Auxiliary facts\<close>

lemma loopPass_Normal: "\<exists>s' out. loopPass M w s = (Normal, s', out)"
  unfolding loopPass_def catchClause_def
  by (auto split: prod.splits completion.splits)


lemma yieldedBlocks_append: "yieldedBlocks (xs @ ys) = yieldedBlocks xs @ yieldedBlocks ys"
  by (induction xs rule: yieldedBlocks.induct) simp_all

lemma alerts_append: "alerts (xs @ ys) = alerts xs @ alerts ys"
  by (induction xs rule: alerts.induct) simp_all

lemma yieldedBlocks_notify:
  "notifyIntegrations w is m n = (c, out) \<Longrightarrow> yieldedBlocks out = []"
  by (induction "is" arbitrary: c out) (auto split: option.splits prod.splits)

lemma alerts_executeBlocks: "executeBlocks w is = (c, out) \<Longrightarrow> alerts out = []"
  by (induction "is" arbitrary: c out) (auto split: sum.splits prod.splits)

lemma notify_all:
  "\<forall>i \<in> set is. integrationThrows w i = None \<Longrightarrow>
   notifyIntegrations w is m n = (Normal, map (\<lambda>i. IntegrationError i m n) is)"
  by (induction "is") simp_all

text \<open>
  With the identity hook a pass either leaves the state as it is and yields nothing, or
  moves on by one block and yields that block.
\<close>

lemma identity_pass:
  assumes "triggerredBlocks M = (\<lambda>i. Inr [i])" and "loopPass M w s = (c, s', out)"
  shows "(s' = s \<and> yieldedBlocks out = []) \<or>
         (latestBlockNumber s' = latestBlockNumber s + 1 \<and>
          yieldedBlocks out = [latestBlockNumber s + 1])"
  using assms
  unfolding loopPass_def tryBlock_def catchClause_def
  by (auto split: sum.splits if_splits prod.splits completion.splits
      simp: yieldedBlocks_append dest: yieldedBlocks_notify)

lemma identity_run:
  assumes "triggerredBlocks M = (\<lambda>i. Inr [i])"
  shows "\<exists>s' out. whileTrue M ws s = (Running s', out) \<and>
           latestBlockNumber s \<le> latestBlockNumber s' \<and>
           yieldedBlocks out = [latestBlockNumber s + 1..latestBlockNumber s']"
proof (induction ws arbitrary: s)
  case Nil
  show ?case by simp
next
  case (Cons w ws)
  obtain s1 out1 where p: "loopPass M w s = (Normal, s1, out1)"
    using loopPass_Normal by blast
  obtain s2 out2 where r: "whileTrue M ws s1 = (Running s2, out2)"
    and le: "latestBlockNumber s1 \<le> latestBlockNumber s2"
    and ys: "yieldedBlocks out2 = [latestBlockNumber s1 + 1..latestBlockNumber s2]"
    using Cons.IH by blast
  have w: "whileTrue M (w # ws) s = (Running s2, out1 @ out2)"
    by (simp add: p r)
  from identity_pass [OF assms p]
  show ?case
  proof
    assume "s1 = s \<and> yieldedBlocks out1 = []"
    with w le ys show ?thesis by (simp add: yieldedBlocks_append)
  next
    assume a: "latestBlockNumber s1 = latestBlockNumber s + 1 \<and>
          yieldedBlocks out1 = [latestBlockNumber s + 1]"
    have "[latestBlockNumber s + 1..latestBlockNumber s2] =
          (latestBlockNumber s + 1) # [latestBlockNumber s + 1 + 1..latestBlockNumber s2]"
      using a le by (simp add: upto_rec1)
    with w le ys a show ?thesis by (simp add: yieldedBlocks_append)
  qed
qed






lemma yieldedBlocks_resumed: "yieldedBlocks (map (Yield None) vs) = []"
  by (induction vs) simp_all










lemma loop_started:
  "start M w0 = Inr (s0, out0) \<Longrightarrow> whileTrue M ws s0 = (r, out) \<Longrightarrow>
   loop M w0 ws = (r, out0 @ out)"
  by (simp add: loop_def)










lemma unhandled_exception_exits:
  "exitCode (uncaughtException e bootProcess) = Some 1"
  by (simp add: uncaughtException_def bootProcess_def)

lemma resumed_run_blocks:
  assumes hook: "triggerredBlocks M = (\<lambda>i. Inr [i])"
    and loc: "latestTransactionLocation M = Some loc"
    and pr: "processRemains w0 loc = Inr r"
  shows "\<exists>b. yieldedBlocks (snd (loop M w0 ws)) = [nextBlockIndex r + 1..b]"
proof -
  have st: "start M w0 =
              Inr (\<lparr>latestBlockNumber = nextBlockIndex r, updatedAt = now w0\<rparr>,
                   map (Yield None) (remainedEvents r))"
    using loc pr by (simp add: start_def)
  obtain s' out where r: "whileTrue M ws \<lparr>latestBlockNumber = nextBlockIndex r, updatedAt = now w0\<rparr>
                            = (Running s', out)"
    and ys: "yieldedBlocks out = [nextBlockIndex r + 1..latestBlockNumber s']"
    using identity_run [OF hook, of ws "\<lparr>latestBlockNumber = nextBlockIndex r, updatedAt = now w0\<rparr>"]
    by auto
  have "loop M w0 ws = (Running s', map (Yield None) (remainedEvents r) @ out)"
    by (rule loop_started [OF st r])
  then show ?thesis
    using ys by (auto simp: yieldedBlocks_append yieldedBlocks_resumed)
qed

lemma resumed_run_skips:
  assumes "triggerredBlocks M = (\<lambda>i. Inr [i])"
    and "latestTransactionLocation M = Some loc"
    and "processRemains w0 loc = Inr r"
  shows "nextBlockIndex r \<notin> set (yieldedBlocks (snd (loop M w0 ws)))"
  using resumed_run_blocks [OF assms, of ws] by auto

subsection \<open>Claim C1\<close>




subsection \<open>Claim C3\<close>

text \<open>
  Claim C3 says that a resumed loop sets its latest block number to
  \<open>nextBlockIndex - 1\<close>, so that the first block fetched by the main loop is
  \<open>nextBlockIndex\<close>. Line 40 assigns \<open>nextBlockIndex\<close> itself: with the tip at 4 and
  \<open>processRemains\<close> answering 5 as the next block index, the latest block number becomes
  5 and the main loop yields the blocks 6, 7 and 8. Block 5 is never yielded.
\<close>

theorem resume_skips_next_block:
  "getTipIndex resumeWorld = Inr 4 \<and>
   start singleMonitor resumeWorld =
     Inr (\<lparr>latestBlockNumber = 5, updatedAt = 1000000\<rparr>,
          [Yield None \<lparr>blockHash = ''h4'', events = [''tx5'']\<rparr>]) \<and>
   yieldedBlocks (snd (loop singleMonitor resumeWorld [steadyWorld, steadyWorld, steadyWorld]))
     = [6, 7, 8]"
  by (simp add: example_defs start_def loop_def loopPass_def tryBlock_def)

subsection \<open>Claim C4\<close>




subsection \<open>Claim C8\<close>

text \<open>
  Claim C8, as stated: whenever a monitor makes no progress for more than five minutes,
  also while the chain tip is advancing, every integration is alerted on each poll. It
  fails: the tip is at 20 and the monitor at 9, more than five minutes have passed since
  the last update, and in three passes in a row the hash of block 10 cannot be fetched;
  the monitor stays at block 9 and no integration is called.
\<close>

theorem no_alert_counterexample:
  "whileTrue pairMonitor [flakyWorld, flakyWorld, flakyWorld] s9 =
     (Running s9,
      [Yield (Some 9) \<lparr>blockHash = ''hash'', events = []\<rparr>,
       LogError (Error ''timeout''), CaptureException (Error ''timeout''),
       Yield (Some 9) \<lparr>blockHash = ''hash'', events = []\<rparr>,
       LogError (Error ''timeout''), CaptureException (Error ''timeout''),
       Yield (Some 9) \<lparr>blockHash = ''hash'', events = []\<rparr>,
       LogError (Error ''timeout''), CaptureException (Error ''timeout'')]) \<and>
   now flakyWorld - updatedAt s9 > TIMEOUT \<and>
   alerts (snd (whileTrue pairMonitor [flakyWorld, flakyWorld, flakyWorld] s9)) = []"
  by (simp add: example_defs loopPass_def tryBlock_def catchClause_def TIMEOUT_def)

text \<open>
  Claim C8, amended: on a poll that finds no new block (\<open>getTipIndex\<close> answers a tip
  below \<open>latestBlockNumber + 1\<close>) more than five minutes after the last update, the
  \<open>error\<close> method of every configured integration is invoked, in order, with a message
  naming the monitor and with the current latest block number, provided none of these
  calls throws; the state is left as it is, so the alert is raised again on each such
  poll while the stall lasts. On a poll that finds the tip ahead, or on which
  \<open>getTipIndex\<close> fails, no integration is invoked, however long ago the last update was.
\<close>

theorem alert_only_at_tip:
  "(getTipIndex w = Inr tip \<and> tip < latestBlockNumber s + 1 \<and>
    now w - updatedAt s > 300000 \<and>
    (\<forall>i \<in> set (integrations M). integrationThrows w i = None) \<longrightarrow>
      loopPass M w s =
        (Normal, s,
         map (\<lambda>i. IntegrationError i (className M @ '' is not updated for 5 minutes.'')
                    (latestBlockNumber s)) (integrations M)
         @ [Delay (delayMilliseconds M)])) \<and>
   (getTipIndex w = Inr tip \<and> latestBlockNumber s + 1 \<le> tip \<longrightarrow>
      alerts (snd (snd (loopPass M w s))) = []) \<and>
   (getTipIndex w = Inl e \<longrightarrow> alerts (snd (snd (loopPass M w s))) = [])"
  by (auto simp: loopPass_def tryBlock_def catchClause_def TIMEOUT_def alertMessage_def
      notify_all alerts_append
      split: sum.splits prod.splits completion.splits dest: alerts_executeBlocks)

text \<open>
  Claim C8, witness: the tip stays at 9, where the monitor is, and the last update is
  1000 seconds old; both integrations are alerted.
\<close>

theorem alert_only_at_tip_witness:
  "getTipIndex idleWorld = Inr 9 \<and>
   loopPass pairMonitor idleWorld s9 =
     (Normal, s9,
      [IntegrationError ''pagerduty''
         ''NineChroniclesTransferredEventMonitor is not updated for 5 minutes.'' 9,
       IntegrationError ''opsgenie''
         ''NineChroniclesTransferredEventMonitor is not updated for 5 minutes.'' 9,
       Delay 15000])"
proof -
  have a: "getTipIndex idleWorld = Inr 9"
    by (simp add: idleWorld_def steadyWorld_def)
  have b: "(9::int) < latestBlockNumber s9 + 1" "now idleWorld - updatedAt s9 > 300000"
    by (simp_all add: example_defs)
  have c: "\<forall>i \<in> set (integrations pairMonitor). integrationThrows idleWorld i = None"
    by (simp add: example_defs)
  from a b c alert_only_at_tip [of idleWorld 9 s9 pairMonitor]
  have "loopPass pairMonitor idleWorld s9 =
        (Normal, s9,
         map (\<lambda>i. IntegrationError i
                    (className pairMonitor @ '' is not updated for 5 minutes.'')
                    (latestBlockNumber s9)) (integrations pairMonitor)
         @ [Delay (delayMilliseconds pairMonitor)])"
    by blast
  then show ?thesis using a by (simp add: pairMonitor_def s9_def)
qed

section \<open>The transfer\<close>

subsection \<open>Auxiliary facts about the amount\<close>

lemma floorDecimal_correct: "floorDecimal x = \<lfloor>decValue x\<rfloor>"
proof (cases "negative x")
  case False
  have "\<lfloor>(of_int (int (coefficient x)) :: rat) / of_int (10 ^ scale x)\<rfloor>
          = int (coefficient x) div 10 ^ scale x"
    by (rule floor_divide_of_int_eq)
  with False show ?thesis
    by (simp add: floorDecimal_def decValue_def Let_def zdiv_int)
next
  case True
  have nz: "(10::int) ^ scale x \<noteq> 0" by simp
  have "\<lfloor>(of_int (- int (coefficient x)) :: rat) / of_int (10 ^ scale x)\<rfloor>
          = (- int (coefficient x)) div 10 ^ scale x"
    by (rule floor_divide_of_int_eq)
  also have "\<dots> = (if int (coefficient x) mod 10 ^ scale x = 0
                    then - (int (coefficient x) div 10 ^ scale x)
                    else - (int (coefficient x) div 10 ^ scale x) - 1)"
    by (rule zdiv_zminus1_eq_if [OF nz])
  finally have f: "\<lfloor>decValue x\<rfloor> = (if int (coefficient x) mod 10 ^ scale x = 0
                    then - (int (coefficient x) div 10 ^ scale x)
                    else - (int (coefficient x) div 10 ^ scale x) - 1)"
    using True by (simp add: decValue_def)
  have m: "(int (coefficient x) mod 10 ^ scale x = 0) = (coefficient x mod 10 ^ scale x = 0)"
  proof -
    have "int (coefficient x) mod 10 ^ scale x = int (coefficient x mod 10 ^ scale x)"
      by (simp add: zmod_int)
    then show ?thesis by simp
  qed
  have d: "int (coefficient x) div 10 ^ scale x = int (coefficient x div 10 ^ scale x)"
    by (simp add: zdiv_int)
  show ?thesis
    unfolding f m d using True by (simp add: floorDecimal_def Let_def)
qed

lemma numDigits_bound: "n < 10 ^ k \<Longrightarrow> 0 < k \<Longrightarrow> numDigits n \<le> k"
proof (induction k arbitrary: n)
  case 0
  then show ?case by simp
next
  case (Suc k)
  show ?case
  proof (cases "n < 10")
    case True
    then show ?thesis by (simp add: numDigits.simps)
  next
    case False
    with Suc.prems have k: "0 < k" by (cases k) auto
    from Suc.prems have "n div 10 < 10 ^ k"
      by (simp add: less_mult_imp_div_less mult.commute)
    from Suc.IH [OF this k] False show ?thesis
      by (simp add: numDigits.simps [of n])
  qed
qed

lemma numDigits_exact: "10 ^ k \<le> n \<Longrightarrow> n < 10 ^ Suc k \<Longrightarrow> numDigits n = Suc k"
proof (induction k arbitrary: n)
  case 0
  then show ?case by (simp add: numDigits.simps)
next
  case (Suc k)
  from Suc.prems have ge: "10 ^ k \<le> n div 10"
    by (simp add: less_eq_div_iff_mult_less_eq mult.commute)
  from Suc.prems have lt: "n div 10 < 10 ^ Suc k"
    by (simp add: less_mult_imp_div_less mult.commute)
  have "(10::nat) \<le> 10 ^ Suc k" by simp
  with Suc.prems have "\<not> n < 10" by linarith
  with Suc.IH [OF ge lt] show ?case
    by (simp add: numDigits.simps [of n])
qed

lemma round_multiple:
  assumes "0 < k"
  shows "(q * 10 ^ k + 5 * 10 ^ (k - 1)) div 10 ^ k = (q::nat)"
proof -
  obtain j where k: "k = Suc j" using assms by (cases k) auto
  have "(5::nat) * 10 ^ j < 10 ^ Suc j" by simp
  then have "(5 * 10 ^ j + q * 10 ^ Suc j) div 10 ^ Suc j = q"
    by (simp only: div_mult_self1 [of "10 ^ Suc j" "5 * 10 ^ j" q] div_less)
  then show ?thesis by (simp add: k add.commute)
qed

lemma scale_down:
  assumes "k \<le> s"
  shows "(of_nat (q * 10 ^ k) :: rat) / 10 ^ s = of_nat q / 10 ^ (s - k)"
proof -
  have "(10::rat) ^ s = 10 ^ k * 10 ^ (s - k)"
    using assms by (simp add: power_add [symmetric])
  then show ?thesis by simp
qed

lemma scale_up:
  assumes "s < k"
  shows "(of_nat (q * 10 ^ k) :: rat) / 10 ^ s = of_nat (q * 10 ^ (k - s))"
proof -
  have "(10::rat) ^ k = 10 ^ (k - s) * 10 ^ s"
    using assms by (simp add: power_add [symmetric])
  then show ?thesis by simp
qed

text \<open>
  Rounding to the precision changes nothing when the coefficient has at most 20
  significant digits, trailing zeros not counted.
\<close>

lemma finalise_exact:
  assumes "coefficient x < 10 ^ 20 \<or> 10 ^ (numDigits (coefficient x) - 20) dvd coefficient x"
  shows "decValue (finalise x) = decValue x"
proof (cases "numDigits (coefficient x) \<le> 20")
  case True
  then show ?thesis by (simp add: finalise_def precision_def)
next
  case False
  define k where "k = numDigits (coefficient x) - 20"
  from False have k: "0 < k" by (simp add: k_def)
  from False assms numDigits_bound [of "coefficient x" 20]
  have "10 ^ k dvd coefficient x" by (auto simp: k_def)
  then obtain q where q: "coefficient x = q * 10 ^ k"
    by (auto simp: dvd_def mult.commute)
  have c: "(coefficient x + 5 * 10 ^ (k - 1)) div 10 ^ k = q"
    unfolding q by (rule round_multiple [OF k])
  have fin: "finalise x =
               (if k \<le> scale x then x\<lparr>coefficient := q, scale := scale x - k\<rparr>
                else x\<lparr>coefficient := q * 10 ^ (k - scale x), scale := 0\<rparr>)"
    unfolding finalise_def precision_def Let_def k_def [symmetric] c
    using False by simp
  show ?thesis
  proof (cases "k \<le> scale x")
    case True
    from scale_down [OF True, of q] show ?thesis
      by (simp add: fin True decValue_def q)
  next
    case False
    then have lt: "scale x < k" by simp
    from scale_up [OF lt, of q] show ?thesis
      by (simp add: fin False decValue_def q)
  qed
qed

lemma mul_exact:
  assumes "coefficient x * coefficient y < 10 ^ 20 \<or>
           10 ^ (numDigits (coefficient x * coefficient y) - 20) dvd coefficient x * coefficient y"
  shows "decValue (mul x y) = decValue x * decValue y"
proof -
  have "decValue (mul x y) =
        decValue \<lparr>negative = (negative x \<noteq> negative y),
               coefficient = coefficient x * coefficient y,
               scale = scale x + scale y\<rparr>"
    unfolding mul_def using assms by (intro finalise_exact) simp
  then show ?thesis by (simp add: decValue_def power_add)
qed

lemma mul_small:
  assumes "coefficient x * coefficient y < 10 ^ 20"
  shows "mul x y =
           \<lparr>negative = (negative x \<noteq> negative y),
            coefficient = coefficient x * coefficient y,
            scale = scale x + scale y\<rparr>"
  using numDigits_bound [OF assms]
  by (simp add: mul_def finalise_def precision_def)

lemma toNumber_safe: "\<bar>n\<bar> < 2 ^ 53 \<Longrightarrow> toNumber n = Finite n"
  by (auto simp: toNumber_def roundToDouble_def)

lemma buildPlainValue_amount:
  "buildPlainValue L T addr n m = Inr pv \<Longrightarrow>
   amountNumber pv = n \<and> type_id pv = ''transfer_asset3''"
  by (auto simp: buildPlainValue_def split: sum.splits)

lemma ncgAmount_exact:
  assumes "parseDecimal amount = Some d"
    and "coefficient d * 100 < 10 ^ 20 \<or>
         10 ^ (numDigits (coefficient d * 100) - 20) dvd coefficient d * 100"
    and "\<bar>\<lfloor>decValue d * 100\<rfloor>\<bar> < 2 ^ 53"
  shows "ncgAmount amount = Inr (Finite \<lfloor>decValue d * 100\<rfloor>)"
proof -
  have "decValue (mul d (ofNat 100)) = decValue d * decValue (ofNat 100)"
    using assms(2) by (intro mul_exact) (simp add: ofNat_def)
  then have "decValue (mul d (ofNat 100)) = decValue d * 100"
    by (simp add: decValue_def ofNat_def)
  then have "floorDecimal (mul d (ofNat 100)) = \<lfloor>decValue d * 100\<rfloor>"
    by (simp add: floorDecimal_correct)
  with assms(1,3) show ?thesis
    by (simp add: ncgAmount_def toNumber_safe)
qed

text \<open>The amount \<open>50.011\<close> of the source's comment.\<close>

lemma parse_50_011:
  "parseDecimal ''50.011'' = Some \<lparr>negative = False, coefficient = 50011, scale = 3\<rparr>"
  by (simp add: parseDecimal_def isDigit_def digitsValue_def)

lemma floor_50_011:
  "\<lfloor>decValue \<lparr>negative = False, coefficient = 50011, scale = 3\<rparr> * 100\<rfloor> = 5001"
proof -
  have "\<lfloor>(of_int 50011 :: rat) / of_int 10\<rfloor> = 50011 div 10"
    by (rule floor_divide_of_int_eq)
  then show ?thesis by (simp add: decValue_def)
qed

lemma ncgAmount_50_011: "ncgAmount ''50.011'' = Inr (Finite 5001)"
  using ncgAmount_exact [OF parse_50_011] by (simp add: floor_50_011)

text \<open>An amount of 25 significant digits.\<close>

lemma parse_long:
  "parseDecimal ''1234567.019999999999999999'' =
     Some \<lparr>negative = False, coefficient = 1234567019999999999999999, scale = 18\<rparr>"
  by (simp add: parseDecimal_def isDigit_def digitsValue_def)

lemma digits_long: "numDigits 123456701999999999999999900 = 27"
  using numDigits_exact [of 26 123456701999999999999999900] by simp

lemma mul_long:
  "mul \<lparr>negative = False, coefficient = 1234567019999999999999999, scale = 18\<rparr> (ofNat 100)
     = \<lparr>negative = False, coefficient = 12345670200000000000, scale = 11\<rparr>"
  by (simp add: mul_def ofNat_def finalise_def precision_def digits_long)

lemma floor_long:
  "\<lfloor>decValue \<lparr>negative = False, coefficient = 1234567019999999999999999, scale = 18\<rparr> * 100\<rfloor>
     = 123456701"
proof -
  have "\<lfloor>(of_int 1234567019999999999999999 :: rat) / of_int 10000000000000000\<rfloor>
          = 1234567019999999999999999 div 10000000000000000"
    by (rule floor_divide_of_int_eq)
  then show ?thesis by (simp add: decValue_def)
qed

subsection \<open>Claim C6\<close>

text \<open>
  Where a hundred times the amount has at most 20 significant digits (trailing zeros not
  counted) and its floor is below \<open>2 ^ 53\<close> in magnitude, the integer amount embedded in
  the \<open>transfer_asset3\<close> plain value is \<open>floor (amount * 100)\<close>: an amount with more
  than two decimal places is rounded down to two places.
\<close>

lemma ncgAmount_floor:
  assumes "parseDecimal amount = Some d"
    and "coefficient d * 100 < 10 ^ 20 \<or>
         10 ^ (numDigits (coefficient d * 100) - 20) dvd coefficient d * 100"
    and "\<bar>\<lfloor>decValue d * 100\<rfloor>\<bar> < 2 ^ 53"
  shows "ncgAmount amount = Inr (Finite \<lfloor>decValue d * 100\<rfloor>) \<and>
         transfer L T addr amount m =
           transferExclusive L T addr (Finite \<lfloor>decValue d * 100\<rfloor>) m \<and>
         (\<forall>pv. buildPlainValue L T addr (Finite \<lfloor>decValue d * 100\<rfloor>) m = Inr pv \<longrightarrow>
            amountNumber pv = Finite \<lfloor>decValue d * 100\<rfloor> \<and>
            type_id pv = ''transfer_asset3'')"
proof -
  have a: "ncgAmount amount = Inr (Finite \<lfloor>decValue d * 100\<rfloor>)"
    by (rule ncgAmount_exact [OF assms])
  then have "transfer L T addr amount m =
           transferExclusive L T addr (Finite \<lfloor>decValue d * 100\<rfloor>) m"
    by (simp add: transfer_def)
  with a show ?thesis
    using buildPlainValue_amount by blast
qed

text \<open>The amounts of the source's comment: 0.01, 50.00 and 50.011.\<close>

lemma ncgAmount_examples:
  "ncgAmount ''0.01'' = Inr (Finite 1) \<and>
   ncgAmount ''50.00'' = Inr (Finite 5000) \<and>
   ncgAmount ''50.011'' = Inr (Finite 5001)"
proof -
  have p1: "parseDecimal ''0.01'' = Some \<lparr>negative = False, coefficient = 1, scale = 2\<rparr>"
    by (simp add: parseDecimal_def isDigit_def digitsValue_def)
  have p2: "parseDecimal ''50.00'' = Some \<lparr>negative = False, coefficient = 5000, scale = 2\<rparr>"
    by (simp add: parseDecimal_def isDigit_def digitsValue_def)
  have "ncgAmount ''0.01'' = Inr (Finite 1)"
    using ncgAmount_exact [OF p1] by (simp add: decValue_def)
  moreover have "ncgAmount ''50.00'' = Inr (Finite 5000)"
    using ncgAmount_exact [OF p2] by (simp add: decValue_def)
  ultimately show ?thesis
    using ncgAmount_50_011 by simp
qed

text \<open>
  Claim C6 says that for every decimal amount string the integer amount in the plain
  value is \<open>floor (amount * 100)\<close>, an amount with more than two decimal places being
  rounded down. \<open>transfer\<close> takes the floor of the product \<open>amount.mul(100)\<close>, and the
  library rounds that product to 20 significant digits first. For the amount
  \<open>1234567.019999999999999999\<close> the product has 25 significant digits and is rounded
  to \<open>123456702\<close> exactly: the integer handed on is \<open>123456702\<close>, where the floor is
  \<open>123456701\<close>. The amount is rounded up.
\<close>

theorem long_amount_rounded_up:
  "ncgAmount ''1234567.019999999999999999'' = Inr (Finite 123456702) \<and>
   transfer exampleLibrary exampleTransfer ''0xrecipient'' ''1234567.019999999999999999'' None =
     transferExclusive exampleLibrary exampleTransfer ''0xrecipient'' (Finite 123456702) None \<and>
   \<lfloor>decValue \<lparr>negative = False, coefficient = 1234567019999999999999999, scale = 18\<rparr> * 100\<rfloor>
     = 123456701"
proof -
  have "ncgAmount ''1234567.019999999999999999'' = Inr (Finite 123456702)"
    by (simp add: ncgAmount_def parse_long mul_long floorDecimal_def toNumber_safe)
  with floor_long show ?thesis by (simp add: transfer_def)
qed

subsection \<open>Auxiliary facts about the requests\<close>

lemma stageCalls_append: "stageCalls (xs @ ys) = stageCalls xs @ stageCalls ys"
  by (induction xs rule: stageCalls.induct) simp_all

lemma createCalls_append: "createCalls (xs @ ys) = createCalls xs @ createCalls ys"
  by (induction xs rule: createCalls.induct) simp_all

lemma foldl_or: "foldl (\<or>) a bs = (a \<or> (\<exists>b \<in> set bs. b))"
  by (induction bs arbitrary: a) auto

lemma reduceOr_nonempty: "rs \<noteq> [] \<Longrightarrow> reduceOr rs = Inr (\<exists>b \<in> set rs. b)"
  by (cases rs) (auto simp: reduceOr_def foldl_or)

lemma stageResult_fst: "fst (stageResult L tx c) = (stageTx c (hexToBase64 L tx) = Inr True)"
  by (auto simp: stageResult_def split: sum.splits)

lemma stageCalls_logs: "stageCalls (map (\<lambda>c. snd (stageResult L tx c)) cs) = []"
  by (induction cs) (auto simp: stageResult_def split: sum.splits)

lemma stageCalls_requests: "stageCalls (map (\<lambda>i. StageTx i p) is) = map (\<lambda>i. (i, p)) is"
  by (induction "is") simp_all

lemma createCalls_logs: "createCalls (map (\<lambda>c. snd (stageResult L tx c)) cs) = []"
  by (induction cs) (auto simp: stageResult_def split: sum.splits)

lemma createCalls_requests: "createCalls (map (\<lambda>i. StageTx i p) is) = []"
  by (induction "is") simp_all

lemma signTransfer_clients:
  "signTransfer L T pv = (Inr tx, calls) \<Longrightarrow> headlessGraphQLCLients T \<noteq> []"
  by (auto simp: signTransfer_def headlessGraphQLClient_def split: list.splits)

lemma signTransfer_stageCalls: "signTransfer L T pv = (r, calls) \<Longrightarrow> stageCalls calls = []"
  by (auto simp: signTransfer_def split: option.splits sum.splits)

lemma stageAndHash_result:
  assumes "headlessGraphQLCLients T \<noteq> []"
  shows "fst (stageAndHash L T tx) =
           (if \<exists>c \<in> set (headlessGraphQLCLients T). stageTx c (hexToBase64 L tx) = Inr True
            then Inr (sha256Hex L tx) else Inl (Error ''Failed to stage transaction''))"
  using assms
  by (auto simp: stageAndHash_def stageAll_def reduceOr_nonempty stageResult_fst)

lemma stageAndHash_calls:
  "snd (stageAndHash L T tx) =
     map (\<lambda>i. StageTx i (hexToBase64 L tx)) [0..<length (headlessGraphQLCLients T)]
     @ map (\<lambda>c. snd (stageResult L tx c)) (headlessGraphQLCLients T)"
  by (auto simp: stageAndHash_def stageAll_def split: sum.splits)

lemma stageAndHash_createCalls: "stageAndHash L T tx = (r, cs) \<Longrightarrow> createCalls cs = []"
  using stageAndHash_calls [of L T tx]
  by (simp add: createCalls_append createCalls_logs createCalls_requests)

lemma transferExclusive_signed:
  assumes "buildPlainValue L T addr n m = Inr pv"
    and "signTransfer L T pv = (Inr tx, calls)"
  shows "transferExclusive L T addr n m =
           (fst (stageAndHash L T tx), calls @ snd (stageAndHash L T tx))"
  using assms by (simp add: transferExclusive_def split: prod.splits)

lemma transfer_signed:
  assumes "ncgAmount amount = Inr n" and "buildPlainValue L T addr n m = Inr pv"
    and "signTransfer L T pv = (Inr tx, calls)"
  shows "transfer L T addr amount m =
           (fst (stageAndHash L T tx), calls @ snd (stageAndHash L T tx))"
  using assms by (simp add: transfer_def transferExclusive_signed)

lemma transfer_success:
  assumes "fst (transfer L T addr amount m) = Inr tid"
  shows "\<exists>n pv tx calls. ncgAmount amount = Inr n \<and> buildPlainValue L T addr n m = Inr pv \<and>
           signTransfer L T pv = (Inr tx, calls)"
  using assms
  by (auto simp: transfer_def transferExclusive_def split: sum.splits prod.splits)

lemma signTransfer_success:
  assumes "signTransfer L T pv = (Inr tx, calls)"
  shows "\<exists>c cs action unsignedTx.
           headlessGraphQLCLients T = c # cs \<and>
           encodeBase64 L pv = Inr action \<and>
           createUnsignedTx c action (publicKey T) = Inr unsignedTx \<and>
           sign T (base64ToHex L unsignedTx) = Inr tx \<and>
           calls = [CreateUnsignedTx 0 action (publicKey T), Sign (base64ToHex L unsignedTx)]"
  using assms
  by (auto simp: signTransfer_def headlessGraphQLClient_def
      split: sum.splits option.splits list.splits)

lemma example_clients:
  "headlessGraphQLCLients exampleTransfer = [primaryClient, rejectingClient, acceptingClient]"
  by (simp add: exampleTransfer_def)

lemma example_plain_value:
  "\<exists>pv. buildPlainValue exampleLibrary exampleTransfer ''0xrecipient'' (Finite 5001) None
          = Inr pv"
  by (simp add: buildPlainValue_def exampleLibrary_def exampleTransfer_def)

lemma example_signed:
  "signTransfer exampleLibrary exampleTransfer pv =
     (Inr ''signed'', [CreateUnsignedTx 0 ''action'' ''pk'', Sign ''hex:unsigned''])"
  by (simp add: signTransfer_def headlessGraphQLClient_def example_defs)

lemma example_transfer:
  "transfer exampleLibrary exampleTransfer ''0xrecipient'' ''50.011'' None =
     (Inr ''sha256:signed'',
      [CreateUnsignedTx 0 ''action'' ''pk'', Sign ''hex:unsigned'',
       StageTx 0 ''b64:signed'', StageTx 1 ''b64:signed'', StageTx 2 ''b64:signed'',
       ConsoleError (Error ''connection refused''),
       ConsoleLog ''It was false to stage signed to stage-1 endpoint'',
       ConsoleLog ''It was true to stage signed to stage-2 endpoint''])"
proof -
  obtain pv where b:
    "buildPlainValue exampleLibrary exampleTransfer ''0xrecipient'' (Finite 5001) None = Inr pv"
    using example_plain_value by blast
  have u: "[0..<3] = [0, 1, 2]" by (simp add: upt_rec)
  have "stageAndHash exampleLibrary exampleTransfer ''signed'' =
     (Inr ''sha256:signed'',
      [StageTx 0 ''b64:signed'', StageTx 1 ''b64:signed'', StageTx 2 ''b64:signed'',
       ConsoleError (Error ''connection refused''),
       ConsoleLog ''It was false to stage signed to stage-1 endpoint'',
       ConsoleLog ''It was true to stage signed to stage-2 endpoint''])"
    by (simp add: stageAndHash_def stageAll_def stageResult_def reduceOr_def showBool_def
        example_clients u)
       (simp add: exampleLibrary_def primaryClient_def rejectingClient_def acceptingClient_def
          showBool_def)
  with transfer_signed [OF ncgAmount_50_011 b example_signed] show ?thesis by simp
qed

subsection \<open>Claim C2\<close>

text \<open>
  Claim C2: in a call of \<open>transfer\<close> that gets as far as a signed transaction \<open>tx\<close>, a
  \<open>stageTx\<close> request with that transaction goes to every configured client, each issued
  before any answer is awaited; the call returns a transaction id (the SHA-256 digest of
  \<open>tx\<close>) if and only if the request of at least one client resolves to \<open>true\<close>; the
  error of a client is written to the console and counts as \<open>false\<close>, the other
  requests standing; and when no client resolves to \<open>true\<close> the call throws
  \<open>Failed to stage transaction\<close> and returns no transaction id.
\<close>

theorem fan_out:
  assumes "ncgAmount amount = Inr n" and "buildPlainValue L T addr n m = Inr pv"
    and "signTransfer L T pv = (Inr tx, calls)"
  shows "transfer L T addr amount m =
           (if \<exists>c \<in> set (headlessGraphQLCLients T). stageTx c (hexToBase64 L tx) = Inr True
            then Inr (sha256Hex L tx) else Inl (Error ''Failed to stage transaction''),
            calls
            @ map (\<lambda>i. StageTx i (hexToBase64 L tx)) [0..<length (headlessGraphQLCLients T)]
            @ map (\<lambda>c. snd (stageResult L tx c)) (headlessGraphQLCLients T)) \<and>
         ((\<exists>tid. fst (transfer L T addr amount m) = Inr tid) \<longleftrightarrow>
            (\<exists>c \<in> set (headlessGraphQLCLients T). stageTx c (hexToBase64 L tx) = Inr True)) \<and>
         (\<forall>tid. fst (transfer L T addr amount m) = Inr tid \<longrightarrow> tid = sha256Hex L tx) \<and>
         ((\<forall>c \<in> set (headlessGraphQLCLients T). stageTx c (hexToBase64 L tx) \<noteq> Inr True) \<longrightarrow>
            fst (transfer L T addr amount m) = Inl (Error ''Failed to stage transaction'')) \<and>
         stageCalls (snd (transfer L T addr amount m)) =
           map (\<lambda>i. (i, hexToBase64 L tx)) [0..<length (headlessGraphQLCLients T)] \<and>
         (\<forall>c \<in> set (headlessGraphQLCLients T). \<forall>e. stageTx c (hexToBase64 L tx) = Inl e \<longrightarrow>
            fst (stageResult L tx c) = False \<and>
            ConsoleError e \<in> set (snd (transfer L T addr amount m)))"
proof -
  note t = transfer_signed [OF assms]
  note ne = signTransfer_clients [OF assms(3)]
  have r: "fst (transfer L T addr amount m) =
           (if \<exists>c \<in> set (headlessGraphQLCLients T). stageTx c (hexToBase64 L tx) = Inr True
            then Inr (sha256Hex L tx) else Inl (Error ''Failed to stage transaction''))"
    by (simp add: t stageAndHash_result [OF ne])
  have c: "snd (transfer L T addr amount m) =
            calls
            @ map (\<lambda>i. StageTx i (hexToBase64 L tx)) [0..<length (headlessGraphQLCLients T)]
            @ map (\<lambda>c. snd (stageResult L tx c)) (headlessGraphQLCLients T)"
    by (simp add: t stageAndHash_calls)
  have eq: "transfer L T addr amount m =
           (if \<exists>c \<in> set (headlessGraphQLCLients T). stageTx c (hexToBase64 L tx) = Inr True
            then Inr (sha256Hex L tx) else Inl (Error ''Failed to stage transaction''),
            calls
            @ map (\<lambda>i. StageTx i (hexToBase64 L tx)) [0..<length (headlessGraphQLCLients T)]
            @ map (\<lambda>c. snd (stageResult L tx c)) (headlessGraphQLCLients T))"
    using r c by (simp add: prod_eq_iff)
  have s: "stageCalls (snd (transfer L T addr amount m)) =
           map (\<lambda>i. (i, hexToBase64 L tx)) [0..<length (headlessGraphQLCLients T)]"
    by (simp add: t stageAndHash_calls stageCalls_append stageCalls_logs stageCalls_requests
        signTransfer_stageCalls [OF assms(3)])
  have l: "\<forall>c \<in> set (headlessGraphQLCLients T). \<forall>e. stageTx c (hexToBase64 L tx) = Inl e \<longrightarrow>
            fst (stageResult L tx c) = False \<and>
            ConsoleError e \<in> set (snd (transfer L T addr amount m))"
  proof (intro ballI allI impI)
    fix c e
    assume c: "c \<in> set (headlessGraphQLCLients T)" and e: "stageTx c (hexToBase64 L tx) = Inl e"
    have f: "stageResult L tx c = (False, ConsoleError e)"
      by (simp add: stageResult_def e)
    then have "ConsoleError e \<in> (\<lambda>c. snd (stageResult L tx c)) ` set (headlessGraphQLCLients T)"
      using c by force
    then have "ConsoleError e \<in> set (snd (transfer L T addr amount m))"
      by (simp add: t stageAndHash_calls)
    with f show "fst (stageResult L tx c) = False \<and>
            ConsoleError e \<in> set (snd (transfer L T addr amount m))"
      by simp
  qed
  have i: "(\<exists>tid. fst (transfer L T addr amount m) = Inr tid) \<longleftrightarrow>
            (\<exists>c \<in> set (headlessGraphQLCLients T). stageTx c (hexToBase64 L tx) = Inr True)"
    using r by auto
  have j: "\<forall>tid. fst (transfer L T addr amount m) = Inr tid \<longrightarrow> tid = sha256Hex L tx"
    using r by (auto split: if_splits)
  have k: "(\<forall>c \<in> set (headlessGraphQLCLients T). stageTx c (hexToBase64 L tx) \<noteq> Inr True) \<longrightarrow>
            fst (transfer L T addr amount m) = Inl (Error ''Failed to stage transaction'')"
    using r by auto
  from eq i j k s l show ?thesis by blast
qed

text \<open>
  Claim C2, witness: of three clients the first refuses the connection, the second
  answers \<open>false\<close> and the third \<open>true\<close>; the transfer succeeds, all three were asked and
  the refusal was written to the console.
\<close>

theorem fan_out_witness:
  "fst (transfer exampleLibrary exampleTransfer ''0xrecipient'' ''50.011'' None)
     = Inr ''sha256:signed'' \<and>
   stageCalls (snd (transfer exampleLibrary exampleTransfer ''0xrecipient'' ''50.011'' None))
     = [(0, ''b64:signed''), (1, ''b64:signed''), (2, ''b64:signed'')] \<and>
   ConsoleError (Error ''connection refused'')
     \<in> set (snd (transfer exampleLibrary exampleTransfer ''0xrecipient'' ''50.011'' None))"
proof -
  obtain pv where b:
    "buildPlainValue exampleLibrary exampleTransfer ''0xrecipient'' (Finite 5001) None = Inr pv"
    using example_plain_value by blast
  have r: "fst (transfer exampleLibrary exampleTransfer ''0xrecipient'' ''50.011'' None)
     = Inr ''sha256:signed'' \<and>
   stageCalls (snd (transfer exampleLibrary exampleTransfer ''0xrecipient'' ''50.011'' None))
     = [(0, ''b64:signed''), (1, ''b64:signed''), (2, ''b64:signed'')] \<and>
   ConsoleError (Error ''connection refused'')
     \<in> set (snd (transfer exampleLibrary exampleTransfer ''0xrecipient'' ''50.011'' None))"
    by (simp add: example_transfer)
  from fan_out [OF ncgAmount_50_011 b example_signed] r
  show ?thesis by blast
qed

subsection \<open>Claim C9\<close>

text \<open>
  Claim C9: in every call of \<open>transfer\<close> the only client asked for an unsigned
  transaction is the one at index 0 of the client list, and it is asked at most once;
  when the call returns a transaction id, it is the digest of the signed form of the
  unsigned transaction that this first client answered, and the clients at the other
  indexes appear in the staging requests only.
\<close>

theorem unsigned_tx_from_first_client:
  "set (createCalls (snd (transfer L T addr amount m))) \<subseteq> {0} \<and>
   length (createCalls (snd (transfer L T addr amount m))) \<le> 1 \<and>
   (\<forall>tid. fst (transfer L T addr amount m) = Inr tid \<longrightarrow>
      (\<exists>c cs n pv action unsignedTx tx.
         headlessGraphQLCLients T = c # cs \<and>
         ncgAmount amount = Inr n \<and>
         buildPlainValue L T addr n m = Inr pv \<and>
         encodeBase64 L pv = Inr action \<and>
         createUnsignedTx c action (publicKey T) = Inr unsignedTx \<and>
         sign T (base64ToHex L unsignedTx) = Inr tx \<and>
         tid = sha256Hex L tx \<and>
         createCalls (snd (transfer L T addr amount m)) = [0] \<and>
         CreateUnsignedTx 0 action (publicKey T) \<in> set (snd (transfer L T addr amount m)) \<and>
         map fst (stageCalls (snd (transfer L T addr amount m)))
           = [0..<length (headlessGraphQLCLients T)]))"
proof -
  have a: "set (createCalls (snd (transfer L T addr amount m))) \<subseteq> {0} \<and>
           length (createCalls (snd (transfer L T addr amount m))) \<le> 1"
    by (auto simp: transfer_def transferExclusive_def signTransfer_def createCalls_append
        split: sum.splits prod.splits option.splits dest: stageAndHash_createCalls)
  have b: "\<forall>tid. fst (transfer L T addr amount m) = Inr tid \<longrightarrow>
      (\<exists>c cs n pv action unsignedTx tx.
         headlessGraphQLCLients T = c # cs \<and>
         ncgAmount amount = Inr n \<and>
         buildPlainValue L T addr n m = Inr pv \<and>
         encodeBase64 L pv = Inr action \<and>
         createUnsignedTx c action (publicKey T) = Inr unsignedTx \<and>
         sign T (base64ToHex L unsignedTx) = Inr tx \<and>
         tid = sha256Hex L tx \<and>
         createCalls (snd (transfer L T addr amount m)) = [0] \<and>
         CreateUnsignedTx 0 action (publicKey T) \<in> set (snd (transfer L T addr amount m)) \<and>
         map fst (stageCalls (snd (transfer L T addr amount m)))
           = [0..<length (headlessGraphQLCLients T)])"
  proof (intro allI impI)
    fix tid
    assume ok: "fst (transfer L T addr amount m) = Inr tid"
    from transfer_success [OF ok]
    obtain n pv tx calls where n: "ncgAmount amount = Inr n"
      and pv: "buildPlainValue L T addr n m = Inr pv"
      and sg: "signTransfer L T pv = (Inr tx, calls)"
      by blast
    from signTransfer_success [OF sg]
    obtain c cs action unsignedTx where cl: "headlessGraphQLCLients T = c # cs"
      and en: "encodeBase64 L pv = Inr action"
      and cr: "createUnsignedTx c action (publicKey T) = Inr unsignedTx"
      and si: "sign T (base64ToHex L unsignedTx) = Inr tx"
      and ca: "calls = [CreateUnsignedTx 0 action (publicKey T), Sign (base64ToHex L unsignedTx)]"
      by blast
    note t = transfer_signed [OF n pv sg]
    have ne: "headlessGraphQLCLients T \<noteq> []" using cl by simp
    have id: "tid = sha256Hex L tx"
      using ok by (simp add: t stageAndHash_result [OF ne] split: if_splits)
    have cc: "createCalls (snd (transfer L T addr amount m)) = [0]"
      by (simp add: t ca stageAndHash_calls createCalls_append createCalls_logs
          createCalls_requests)
    have mem: "CreateUnsignedTx 0 action (publicKey T) \<in> set (snd (transfer L T addr amount m))"
      by (simp add: t ca)
    have st: "map fst (stageCalls (snd (transfer L T addr amount m)))
           = [0..<length (headlessGraphQLCLients T)]"
      by (simp add: t ca stageAndHash_calls stageCalls_append stageCalls_logs
          stageCalls_requests comp_def)
    from cl n pv en cr si id cc mem st
    show "\<exists>c cs n pv action unsignedTx tx.
         headlessGraphQLCLients T = c # cs \<and>
         ncgAmount amount = Inr n \<and>
         buildPlainValue L T addr n m = Inr pv \<and>
         encodeBase64 L pv = Inr action \<and>
         createUnsignedTx c action (publicKey T) = Inr unsignedTx \<and>
         sign T (base64ToHex L unsignedTx) = Inr tx \<and>
         tid = sha256Hex L tx \<and>
         createCalls (snd (transfer L T addr amount m)) = [0] \<and>
         CreateUnsignedTx 0 action (publicKey T) \<in> set (snd (transfer L T addr amount m)) \<and>
         map fst (stageCalls (snd (transfer L T addr amount m)))
           = [0..<length (headlessGraphQLCLients T)]"
      by blast
  qed
  from a b show ?thesis by blast
qed

text \<open>
  Claim C9, witness: with three clients, the one request for an unsigned transaction goes
  to the first; all three are asked to stage.
\<close>

theorem unsigned_tx_from_first_client_witness:
  "fst (transfer exampleLibrary exampleTransfer ''0xrecipient'' ''50.011'' None)
     = Inr ''sha256:signed'' \<and>
   createCalls (snd (transfer exampleLibrary exampleTransfer ''0xrecipient'' ''50.011'' None))
     = [0] \<and>
   map fst (stageCalls
              (snd (transfer exampleLibrary exampleTransfer ''0xrecipient'' ''50.011'' None)))
     = [0, 1, 2]"
proof -
  have ok: "fst (transfer exampleLibrary exampleTransfer ''0xrecipient'' ''50.011'' None)
     = Inr ''sha256:signed''"
    by (simp add: example_transfer)
  from unsigned_tx_from_first_client
    [of exampleLibrary exampleTransfer "''0xrecipient''" "''50.011''" None] ok
  have "createCalls
          (snd (transfer exampleLibrary exampleTransfer ''0xrecipient'' ''50.011'' None)) = [0]"
    by blast
  with ok show ?thesis by (simp add: example_transfer)
qed

section \<open>The mutex\<close>

subsection \<open>Auxiliary facts\<close>

lemma count_update:
  "i < length xs \<Longrightarrow>
   length (filter P (xs[i := v])) + (if P (xs ! i) then 1 else 0) =
   length (filter P xs) + (if P v then 1 else 0)"
proof (induction xs arbitrary: i)
  case Nil
  then show ?case by simp
next
  case (Cons x xs)
  then show ?case by (cases i) auto
qed

lemma inside_update:
  "i < length (phases s) \<Longrightarrow>
   length (filter (\<lambda>p. p = Building \<or> p = Signing \<or> p = Staging) ((phases s)[i := v]))
     + (if phases s ! i = Building \<or> phases s ! i = Signing \<or> phases s ! i = Staging
        then 1 else 0)
   = inside s + (if v = Building \<or> v = Signing \<or> v = Staging then 1 else 0)"
  unfolding inside_def
  by (rule count_update)

lemma resume_inv: "mutexInv s \<Longrightarrow> mutexInv (resume ev s)"
proof (cases ev)
  case (Pair i ok)
  assume inv: "mutexInv s"
  show ?thesis
  proof (cases "i < length (phases s)")
    case False
    with Pair inv show ?thesis by (simp add: resume_def)
  next
    case True
    note u = inside_update [OF True]
    show ?thesis
    proof (cases "phases s ! i")
      case Waiting
      with Pair True inv u [of Building] u [of Done] show ?thesis
        by (auto simp: resume_def mutexInv_def inside_def)
    next
      case Building
      with Pair True inv u [of Signing] u [of Done] show ?thesis
        by (auto simp: resume_def mutexInv_def inside_def split: if_splits)
    next
      case Signing
      with Pair True inv u [of Staging] u [of Done] show ?thesis
        by (auto simp: resume_def mutexInv_def inside_def split: if_splits)
    next
      case Staging
      with Pair True inv u [of Done] show ?thesis
        by (auto simp: resume_def mutexInv_def inside_def split: if_splits)
    next
      case Done
      with Pair True inv show ?thesis by (simp add: resume_def)
    qed
  qed
qed

lemma schedule_inv: "mutexInv s \<Longrightarrow> mutexInv (schedule evs s)"
  by (induction evs arbitrary: s) (simp_all add: resume_inv)

lemma initial_inv: "mutexInv (concurrentCalls K)"
  by (simp add: mutexInv_def concurrentCalls_def inside_def)

lemma inFlight_le_inside: "inFlight s \<le> inside s"
proof -
  have "length (filter (\<lambda>p. p = Building) xs) \<le>
        length (filter (\<lambda>p. p = Building \<or> p = Signing \<or> p = Staging) xs)" for xs
    by (induction xs) auto
  then show ?thesis by (simp add: inFlight_def inside_def)
qed

lemma everyone_finishes:
  "phases (schedule [(0, True), (0, True), (0, True), (0, True),
                     (1, True), (1, True), (1, True), (1, True),
                     (2, True), (2, True), (2, True), (2, True)] (concurrentCalls 3))
     = [Done, Done, Done]"
  by code_simp

subsection \<open>Claim C7\<close>

text \<open>
  Claim C7: for any number \<open>K\<close> of concurrent calls of \<open>transfer\<close> on the one transfer
  object of the process (\<open>index.ts\<close> hands the same object to both observers), and
  however their suspensions are resumed, at most one call is inside the function run
  under the mutex of that object, so at most one \<open>createUnsignedTx\<close> request is in
  flight.
\<close>

theorem at_most_one_in_flight:
  "inFlight (schedule evs (concurrentCalls K)) \<le> 1 \<and>
   inside (schedule evs (concurrentCalls K)) \<le> 1"
proof -
  have "mutexInv (schedule evs (concurrentCalls K))"
    by (rule schedule_inv [OF initial_inv])
  then have "inside (schedule evs (concurrentCalls K)) \<le> 1"
    by (simp add: mutexInv_def split: if_splits)
  with inFlight_le_inside [of "schedule evs (concurrentCalls K)"] show ?thesis by simp
qed

text \<open>
  Claim C7, witness: three calls; the second enters first and fails while signing, then
  the third enters and its request is in flight, the first still waiting.
\<close>

theorem at_most_one_in_flight_witness:
  "phases (schedule [(1, True), (0, True), (2, True), (1, True), (1, False), (2, True)]
             (concurrentCalls 3)) = [Waiting, Done, Building] \<and>
   inFlight (schedule [(1, True), (0, True), (2, True), (1, True), (1, False), (2, True)]
               (concurrentCalls 3)) = 1"
proof -
  have p: "phases (schedule [(1, True), (0, True), (2, True), (1, True), (1, False), (2, True)]
             (concurrentCalls 3)) = [Waiting, Done, Building]"
    by code_simp
  then have "inFlight (schedule [(1, True), (0, True), (2, True), (1, True), (1, False),
               (2, True)] (concurrentCalls 3)) = 1"
    by (simp add: inFlight_def)
  with p at_most_one_in_flight
    [of "[(1, True), (0, True), (2, True), (1, True), (1, False), (2, True)]" 3]
  show ?thesis by simp
qed

section \<open>The minter\<close>

subsection \<open>Auxiliary facts\<close>

lemma errorCallbacks_catch: "errorCallbacks (catchWithErrorCallback w e) = [e]"
  by (simp add: catchWithErrorCallback_def split: option.splits)

lemma sendOptions_catch: "sendOptions (catchWithErrorCallback w e) = []"
  by (simp add: catchWithErrorCallback_def split: option.splits)

lemma callbacks_catch: "callbacks (catchWithErrorCallback w e) = []"
  by (simp add: catchWithErrorCallback_def split: option.splits)

text \<open>The law of the composite policy, on the policies as the specification gives them.\<close>

lemma composite_policy_law:
  "calculateGasPrice (gasPricePolicy r cap) p = min (of_int \<lfloor>p * r\<rfloor>) cap"
  by (simp add: gasPricePolicy_def)

lemma parse_gas_price:
  "parseDecimal ''103926224184'' =
     Some \<lparr>negative = False, coefficient = 103926224184, scale = 0\<rparr>"
  by (simp add: parseDecimal_def isDigit_def digitsValue_def)

lemma example_gas_price:
  "floorDecimal (mul \<lparr>negative = False, coefficient = 103926224184, scale = 0\<rparr>
                     \<lparr>negative = False, coefficient = 15, scale = Suc 0\<rparr>) = 155889336276"
  using mul_small [of "\<lparr>negative = False, coefficient = 103926224184, scale = 0\<rparr>"
      "\<lparr>negative = False, coefficient = 15, scale = Suc 0\<rparr>"]
  by (simp add: floorDecimal_def)


lemma example_mint_throwing:
  "mint exampleMinter throwingCallbackWorld ''0xabc'' ''1000'' =
     [MintLog ''Minting 1000 0xtoken to 0xabc'',
      Send ''0xabc'' ''1000''
        [(''from'', Text ''0xminter''), (''gasPrice'', DecimalString 155889336276)],
      Callback ''receipt'', ErrorCallback (Error ''observer failed'')]"
  by (simp add: mint_def exampleMinter_def mintingWorld_def throwingCallbackWorld_def
      catchWithErrorCallback_def parse_gas_price example_gas_price)

subsection \<open>Claim C5\<close>


subsection \<open>Claim C10\<close>

text \<open>
  Claim C10, as stated: \<open>errorCallback\<close> is invoked only for errors arising from the
  contract send itself. It fails: the send succeeds and the success callback throws; the
  \<open>catch\<close> chained behind \<open>then(callback)\<close> hands that error to \<open>errorCallback\<close>.
\<close>

theorem error_callback_counterexample:
  "errorCallbacks (mint exampleMinter throwingCallbackWorld ''0xabc'' ''1000'') =
     [Error ''observer failed''] \<and>
   send throwingCallbackWorld
     [(''from'', Text ''0xminter''), (''gasPrice'', DecimalString 155889336276)]
     = Inr ''receipt''"
  by (simp add: example_mint_throwing) (simp add: throwingCallbackWorld_def mintingWorld_def)

text \<open>
  Claim C10, amended: if the gas-price fetch rejects, neither the success callback nor
  \<open>errorCallback\<close> is ever invoked, nothing is sent, and the rejection is unhandled;
  \<open>errorCallback\<close> is invoked only after the contract send has been issued: with the
  error the send rejected with (it is invoked for every such error), or with an error
  thrown by the success callback.
\<close>

theorem gas_price_rejection_unhandled:
  "(getGasPrice w = Inl e \<longrightarrow>
      mint M w addr amount =
        [MintLog (''Minting '' @ amount @ '' '' @ contractAddress M @ '' to '' @ addr),
         UnhandledRejection e] \<and>
      callbacks (mint M w addr amount) = [] \<and>
      errorCallbacks (mint M w addr amount) = [] \<and>
      sendOptions (mint M w addr amount) = [] \<and>
      unhandledRejections (mint M w addr amount) = [e]) \<and>
   (e' \<in> set (errorCallbacks (mint M w addr amount)) \<longrightarrow>
      (\<exists>opts. sendOptions (mint M w addr amount) = [opts] \<and>
         (send w opts = Inl e' \<or>
          (\<exists>receipt. send w opts = Inr receipt \<and> callbackThrows w receipt = Some e')))) \<and>
   (\<forall>opts. sendOptions (mint M w addr amount) = [opts] \<and> send w opts = Inl e' \<longrightarrow>
      errorCallbacks (mint M w addr amount) = [e'] \<and> callbacks (mint M w addr amount) = [])"
  by (auto simp: mint_def Let_def errorCallbacks_catch sendOptions_catch callbacks_catch
      split: sum.splits option.splits)

text \<open>Claim C10, witness: the node cannot be reached for the gas price.\<close>

theorem gas_price_rejection_unhandled_witness:
  "getGasPrice noGasPriceWorld = Inl (Error ''rpc down'') \<and>
   mint exampleMinter noGasPriceWorld ''0xabc'' ''1000'' =
     [MintLog ''Minting 1000 0xtoken to 0xabc'', UnhandledRejection (Error ''rpc down'')] \<and>
   callbacks (mint exampleMinter noGasPriceWorld ''0xabc'' ''1000'') = [] \<and>
   errorCallbacks (mint exampleMinter noGasPriceWorld ''0xabc'' ''1000'') = []"
proof -
  have a: "getGasPrice noGasPriceWorld = Inl (Error ''rpc down'')"
    by (simp add: noGasPriceWorld_def mintingWorld_def)
  from a gas_price_rejection_unhandled
    [where w = noGasPriceWorld and e = "Error ''rpc down''" and M = exampleMinter
       and addr = "''0xabc''" and amount = "''1000''" and e' = "Error ''rpc down''"]
  show ?thesis by (simp add: exampleMinter_def)
qed

end
